theory Spec2Isabelle
  imports Main "HOL-Library.Sublist"
begin

section \<open>The database tool: a shallow embedding of \<open>database_tool.py\<close>\<close>

text \<open>
  The module talks to three libraries (pyodbc, SQLAlchemy, pandas) and to the \<open>logging\<close>
  module. None of them is part of the program, so the embedding keeps them outside: every
  library call the program makes is appended to a trace, in program order, and an
  environment decides whether the call raises. What the program itself does (which calls
  it makes, in which order, under which conditions, what it logs and what it stores on
  \<open>self\<close>) is translated line by line.

  Python strings are modelled as \<open>string\<close>, read as the UTF-8 encoding of the text; an
  optional string argument (\<open>None\<close> or a \<open>str\<close>) is a \<open>string option\<close>.
\<close>

subsection \<open>Exceptions, log records, library calls\<close>

datatype exn =
    Exception string
  | AttributeError string
  | LibraryError string

text \<open>\<open>str(e)\<close>, which is what \<open>f"{e}"\<close> prints.\<close>

fun exn_str :: "exn \<Rightarrow> string" where
  "exn_str (Exception m) = m"
| "exn_str (AttributeError m) = m"
| "exn_str (LibraryError m) = m"

datatype level = INFO | ERROR

type_synonym handle = nat

text \<open>
  One constructor for each library call the module makes. A handle names an object the
  library returned (an engine, a session, a connection). \<open>Commit\<close> is the \<open>commit()\<close>
  of whatever object the handle names: a session, or the transaction of a connection.
\<close>

datatype event =
    Log level string
  | Drivers
  | CreateEngine handle string
  | SessionOpen handle handle
  | EngineConnect handle handle
  | EngineBegin handle handle
  | Execute handle string
  | Commit handle
  | Rollback handle
  | Close handle
  | Dispose handle
  | ReadSqlQuery handle string

datatype result = CursorResult handle string

datatype dataframe = DataFrame "string list" "string list list"

text \<open>
  The environment: the ODBC drivers installed (\<open>pyodbc.drivers()\<close>), \<open>os.environ\<close>, the
  table a query reads, and for every library call whether it raises.
\<close>

record env =
  installed :: "string list"
  environ :: "string \<rightharpoonup> string"
  raises :: "event \<Rightarrow> exn option"
  table :: "string \<Rightarrow> dataframe"

text \<open>
  The attributes of a \<open>MSSQLDatabaseManager\<close> instance. Every field is \<open>None\<close> until
  \<open>__init__\<close> assigns it; \<open>driver\<close>, \<open>user\<close> and \<open>password\<close> may hold Python's \<open>None\<close>,
  the inner option.
\<close>

record manager =
  driver :: "string option option"
  server :: "string option"
  port :: "int option"
  database :: "string option"
  user :: "string option option"
  password :: "string option option"
  use_trusted_connection :: "bool option"
  params :: "string option"
  engine :: "handle option"
  session :: "handle option"
  conn :: "handle option"

definition no_attributes :: manager where
  "no_attributes =
     \<lparr>driver = None, server = None, port = None, database = None, user = None,
      password = None, use_trusted_connection = None, params = None, engine = None,
      session = None, conn = None\<rparr>"

text \<open>
  The state a method runs in: the instance, the trace of library calls and log records so
  far, and the next unused handle.
\<close>

record state =
  self :: manager
  trace :: "event list"
  fresh :: handle

definition logger :: "level \<Rightarrow> string \<Rightarrow> state \<Rightarrow> state" where
  "logger lvl msg st = st\<lparr>trace := trace st @ [Log lvl msg]\<rparr>"

text \<open>A library call on existing objects: recorded, then it returns or raises.\<close>

definition lib_call :: "env \<Rightarrow> event \<Rightarrow> state \<Rightarrow> (exn + unit) \<times> state" where
  "lib_call ev c st =
     (case raises ev c of None \<Rightarrow> Inr () | Some e \<Rightarrow> Inl e,
      st\<lparr>trace := trace st @ [c]\<rparr>)"

text \<open>A library call that returns a new object: the handle it returns is unused so far.\<close>

definition lib_new :: "env \<Rightarrow> (handle \<Rightarrow> event) \<Rightarrow> state \<Rightarrow> (exn + handle) \<times> state" where
  "lib_new ev mk st =
     (let h = fresh st in
      (case raises ev (mk h) of None \<Rightarrow> Inr h | Some e \<Rightarrow> Inl e,
       st\<lparr>trace := trace st @ [mk h], fresh := Suc h\<rparr>))"

text \<open>The log records of a trace, in order.\<close>

fun log_lines :: "event list \<Rightarrow> (level \<times> string) list" where
  "log_lines [] = []"
| "log_lines (Log lvl msg # es) = (lvl, msg) # log_lines es"
| "log_lines (e # es) = log_lines es"

subsection \<open>\<open>find_driver\<close>\<close>

text \<open>Python's \<open>sub in s\<close> on strings: \<open>sub\<close> starts at some position of \<open>s\<close>.\<close>

fun str_in :: "string \<Rightarrow> string \<Rightarrow> bool" where
  "str_in sub [] = (sub = [])"
| "str_in sub (c # cs) = (prefix sub (c # cs) \<or> str_in sub cs)"

text \<open>
  \<^verbatim>\<open>
  if db_system not in ['SQL Server']:
      logger.error("Invalid database system. ...")
      return None
  drivers = [driver for driver in pyodbc.drivers() if db_system in driver]
  if drivers:
      return drivers[-1]
  else:
      return None
  \<close>
  \<open>drivers[-1]\<close> is read only when \<open>drivers\<close> is not empty, where it is the last element.
\<close>

definition find_driver :: "env \<Rightarrow> string \<Rightarrow> state \<Rightarrow> (exn + string option) \<times> state" where
  "find_driver ev db_system st =
     (if db_system \<notin> set [''SQL Server''] then
        (Inr None,
         logger ERROR ''Invalid database system. Please provide a valid database system name.'' st)
      else
        (case lib_call ev Drivers st of
           (Inl e, st1) \<Rightarrow> (Inl e, st1)
         | (Inr _, st1) \<Rightarrow>
             (let drivers = filter (\<lambda>driver. str_in db_system driver) (installed ev) in
              if drivers \<noteq> [] then (Inr (Some (last drivers)), st1)
              else (Inr None, st1))))"

subsection \<open>The connection descriptor\<close>

text \<open>How an f-string prints an \<open>int\<close>: decimal digits, with a sign when negative.\<close>

fun digits :: "nat \<Rightarrow> string" where
  "digits n =
     (if n < 10 then [char_of (48 + n)]
      else digits (n div 10) @ [char_of (48 + n mod 10)])"

declare digits.simps [simp del]

definition str_int :: "int \<Rightarrow> string" where
  "str_int i = (if i < 0 then CHR ''-'' # digits (nat (- i)) else digits (nat i))"

text \<open>How an f-string prints a value that is a \<open>str\<close> or \<open>None\<close>.\<close>

definition format_opt :: "string option \<Rightarrow> string" where
  "format_opt x = (case x of None \<Rightarrow> ''None'' | Some s \<Rightarrow> s)"

text \<open>
  \<open>urllib.parse.quote_plus\<close> with its default arguments, byte by byte over the UTF-8
  encoding: letters, digits and \<open>_.-~\<close> stay, a space becomes \<open>+\<close>, every other byte
  becomes \<open>%XX\<close> in upper-case hexadecimal.
\<close>

definition always_safe :: "char \<Rightarrow> bool" where
  "always_safe c \<longleftrightarrow>
     c \<in> set ''ABCDEFGHIJKLMNOPQRSTUVWXYZabcdefghijklmnopqrstuvwxyz0123456789_.-~''"

definition hex_digit :: "nat \<Rightarrow> char" where
  "hex_digit n = ''0123456789ABCDEF'' ! n"

definition quote_byte :: "char \<Rightarrow> string" where
  "quote_byte c =
     (if c = CHR '' '' then ''+''
      else if always_safe c then [c]
      else [CHR ''%'', hex_digit (of_char c div 16), hex_digit (of_char c mod 16)])"

definition quote_plus :: "string \<Rightarrow> string" where
  "quote_plus s = concat (map quote_byte s)"

text \<open>
  The text handed to \<open>quote_plus\<close> (lines 66 to 77): the two f-strings of \<open>__init__\<close>,
  selected by \<open>use_trusted_connection\<close>.
\<close>

definition odbc_string ::
  "string \<Rightarrow> string \<Rightarrow> int \<Rightarrow> string \<Rightarrow> string option \<Rightarrow> string option \<Rightarrow> bool \<Rightarrow> string" where
  "odbc_string drv srv prt db usr pwd trusted =
     (if trusted then
        ''DRIVER='' @ drv @ '';'' @
        ''SERVER='' @ srv @ '','' @ str_int prt @ '';'' @
        ''DATABASE='' @ db @ '';'' @
        ''Trusted_Connection=yes;''
      else
        ''DRIVER='' @ drv @ '';'' @
        ''SERVER='' @ srv @ '','' @ str_int prt @ '';'' @
        ''DATABASE='' @ db @ '';'' @
        ''UID='' @ format_opt usr @ '';'' @
        ''PWD='' @ format_opt pwd @ '';'' @
        ''Trusted_Connection=no;'')"

subsection \<open>\<open>MSSQLDatabaseManager.__init__\<close>\<close>

text \<open>Truth value of a value that is a \<open>str\<close> or \<open>None\<close>: false for \<open>None\<close> and for \<open>''\<close>.\<close>

definition truthy :: "string option \<Rightarrow> bool" where
  "truthy x = (case x of None \<Rightarrow> False | Some s \<Rightarrow> s \<noteq> [])"

text \<open>\<open>a or b\<close>: \<open>a\<close> when it is true, else \<open>b\<close>.\<close>

definition py_or :: "string option \<Rightarrow> string option \<Rightarrow> string option" where
  "py_or a b = (if truthy a then a else b)"

definition driver_not_found :: string where
  "driver_not_found =
     ''ODBC Driver for SQL Server not found. Please install the driver and try again.''"

text \<open>
  The \<open>try\<close> block of \<open>__init__\<close> (lines 80 to 85): the engine, a session bound to it, a
  connection of it, each stored on \<open>self\<close> as soon as the library returns it.
\<close>

definition open_session :: "env \<Rightarrow> string \<Rightarrow> state \<Rightarrow> (exn + unit) \<times> state" where
  "open_session ev p st =
     (case lib_new ev (\<lambda>h. CreateEngine h (''mssql+pyodbc:///?odbc_connect='' @ p)) st of
        (Inl e, st1) \<Rightarrow> (Inl e, st1)
      | (Inr eng, st1) \<Rightarrow>
          (let st2 = st1\<lparr>self := (self st1)\<lparr>engine := Some eng\<rparr>\<rparr> in
           case lib_new ev (\<lambda>h. SessionOpen h eng) st2 of
             (Inl e, st3) \<Rightarrow> (Inl e, st3)
           | (Inr s, st3) \<Rightarrow>
               (let st4 = st3\<lparr>self := (self st3)\<lparr>session := Some s\<rparr>\<rparr> in
                case lib_new ev (\<lambda>h. EngineConnect eng h) st4 of
                  (Inl e, st5) \<Rightarrow> (Inl e, st5)
                | (Inr c, st5) \<Rightarrow>
                    (Inr (),
                     logger INFO ''DB Connected!''
                       (st5\<lparr>self := (self st5)\<lparr>conn := Some c\<rparr>\<rparr>)))))"

text \<open>
  The constructor, on the instance in \<open>self st\<close>. The result is the exception it raises
  or \<open>()\<close>; the state returned holds the attributes assigned up to that point.
\<close>

definition init ::
  "env \<Rightarrow> string \<Rightarrow> string \<Rightarrow> int \<Rightarrow> string option \<Rightarrow> string option \<Rightarrow> bool \<Rightarrow> state
    \<Rightarrow> (exn + unit) \<times> state" where
  "init ev db srv prt usr pwd trusted st =
     (case find_driver ev ''SQL Server'' st of
        (Inl e, st1) \<Rightarrow> (Inl e, st1)
      | (Inr d, st1) \<Rightarrow>
          (let st2 = st1\<lparr>self := (self st1)\<lparr>driver := Some d\<rparr>\<rparr> in
           if \<not> truthy d then
             (Inl (Exception driver_not_found), logger ERROR driver_not_found st2)
           else
             (let u = py_or usr (environ ev ''SQLUID'');
                  pw = py_or pwd (environ ev ''SQLPWD'');
                  p = quote_plus (odbc_string (format_opt d) srv prt db u pw trusted);
                  st3 = st2\<lparr>self := (self st2)
                          \<lparr>server := Some srv, port := Some prt, database := Some db,
                           user := Some u, password := Some pw,
                           use_trusted_connection := Some trusted, params := Some p\<rparr>\<rparr>
              in case open_session ev p st3 of
                   (Inr _, st4) \<Rightarrow> (Inr (), st4)
                 | (Inl e, st4) \<Rightarrow>
                     (Inl e, logger ERROR (''Connection error: '' @ exn_str e) st4))))"

subsection \<open>\<open>run_query\<close>\<close>

definition no_attribute :: "string \<Rightarrow> exn" where
  "no_attribute a =
     AttributeError
       (CHR 0x27 # ''MSSQLDatabaseManager'' @ CHR 0x27 # '' object has no attribute '' @
        CHR 0x27 # a @ [CHR 0x27])"

text \<open>
  \<open>with self.engine.begin() as conn: body\<close>. SQLAlchemy's \<open>Engine.begin()\<close> is a context
  manager that hands the block a new connection with a transaction begun. When the block
  ends normally it commits that transaction and closes the connection; when the block
  raises (or the commit does) it rolls back, closes the connection and lets the exception
  through.
\<close>

definition with_engine_begin ::
  "env \<Rightarrow> handle \<Rightarrow> (handle \<Rightarrow> state \<Rightarrow> (exn + 'a) \<times> state) \<Rightarrow> state \<Rightarrow> (exn + 'a) \<times> state" where
  "with_engine_begin ev eng body st =
     (case lib_new ev (EngineBegin eng) st of
        (Inl e, st1) \<Rightarrow> (Inl e, st1)
      | (Inr c, st1) \<Rightarrow>
          (case body c st1 of
             (Inl e, st2) \<Rightarrow>
               (Inl e, snd (lib_call ev (Close c) (snd (lib_call ev (Rollback c) st2))))
           | (Inr r, st2) \<Rightarrow>
               (case lib_call ev (Commit c) st2 of
                  (Inl e, st3) \<Rightarrow>
                    (Inl e, snd (lib_call ev (Close c) (snd (lib_call ev (Rollback c) st3))))
                | (Inr _, st3) \<Rightarrow>
                    (case lib_call ev (Close c) st3 of
                       (Inl e, st4) \<Rightarrow> (Inl e, st4)
                     | (Inr _, st4) \<Rightarrow> (Inr r, st4)))))"

text \<open>\<open>self.session.commit()\<close>.\<close>

definition session_commit :: "env \<Rightarrow> state \<Rightarrow> (exn + unit) \<times> state" where
  "session_commit ev st =
     (case session (self st) of
        None \<Rightarrow> (Inl (no_attribute ''session''), st)
      | Some s \<Rightarrow> lib_call ev (Commit s) st)"

text \<open>
  The block under the \<open>with\<close> (lines 104 to 108). \<open>text(str(query))\<close> of a \<open>str\<close> is the
  statement with that text.
\<close>

definition query_body :: "env \<Rightarrow> string \<Rightarrow> bool \<Rightarrow> handle \<Rightarrow> state \<Rightarrow> (exn + result) \<times> state" where
  "query_body ev query commit c st =
     (case lib_call ev (Execute c query) st of
        (Inl e, st1) \<Rightarrow> (Inl e, st1)
      | (Inr _, st1) \<Rightarrow>
          (case (if commit then session_commit ev st1 else (Inr (), st1)) of
             (Inl e, st2) \<Rightarrow> (Inl e, st2)
           | (Inr _, st2) \<Rightarrow>
               (Inr (CursorResult c query),
                logger INFO ''Query executed successfully!'' st2)))"

definition run_query :: "env \<Rightarrow> string \<Rightarrow> bool \<Rightarrow> state \<Rightarrow> (exn + result) \<times> state" where
  "run_query ev query commit st =
     (let st1 = logger INFO (''Executing query: '' @ query) st in
      case (case engine (self st1) of
              None \<Rightarrow> (Inl (no_attribute ''engine''), st1)
            | Some eng \<Rightarrow> with_engine_begin ev eng (query_body ev query commit) st1) of
        (Inr r, st2) \<Rightarrow> (Inr r, st2)
      | (Inl e, st2) \<Rightarrow>
          (Inl e, logger ERROR (''Query execution error: '' @ exn_str e) st2))"

subsection \<open>\<open>save_query_df\<close> and \<open>disconnect\<close>\<close>

text \<open>\<open>pd.read_sql_query(query, self.engine)\<close>, with no \<open>try\<close> around it.\<close>

definition save_query_df :: "env \<Rightarrow> string \<Rightarrow> state \<Rightarrow> (exn + dataframe) \<times> state" where
  "save_query_df ev query st =
     (case engine (self st) of
        None \<Rightarrow> (Inl (no_attribute ''engine''), st)
      | Some eng \<Rightarrow>
          (case lib_call ev (ReadSqlQuery eng query) st of
             (Inl e, st1) \<Rightarrow> (Inl e, st1)
           | (Inr _, st1) \<Rightarrow> (Inr (table ev query), st1)))"

text \<open>The \<open>try\<close> block of \<open>disconnect\<close> (lines 131 to 133).\<close>

definition close_and_dispose :: "env \<Rightarrow> state \<Rightarrow> (exn + unit) \<times> state" where
  "close_and_dispose ev st =
     (case conn (self st) of
        None \<Rightarrow> (Inl (no_attribute ''conn''), st)
      | Some c \<Rightarrow>
          (case lib_call ev (Close c) st of
             (Inl e, st1) \<Rightarrow> (Inl e, st1)
           | (Inr _, st1) \<Rightarrow>
               (case engine (self st1) of
                  None \<Rightarrow> (Inl (no_attribute ''engine''), st1)
                | Some eng \<Rightarrow>
                    (case lib_call ev (Dispose eng) st1 of
                       (Inl e, st2) \<Rightarrow> (Inl e, st2)
                     | (Inr _, st2) \<Rightarrow> (Inr (), logger INFO ''DB Disconnected!'' st2)))))"

definition disconnect :: "env \<Rightarrow> state \<Rightarrow> (exn + unit) \<times> state" where
  "disconnect ev st =
     (case close_and_dispose ev st of
        (Inr _, st1) \<Rightarrow> (Inr (), st1)
      | (Inl e, st1) \<Rightarrow>
          (Inl e, logger ERROR (''Disconnection error: '' @ exn_str e) st1))"

subsection \<open>Reading a descriptor\<close>




text \<open>
  The ODBC driver manager then reads the text as fields \<open>KEY=value\<close> separated by \<open>;\<close>.
  \<open>split_on\<close> is Python's \<open>str.split(sep)\<close> for a one-character separator; a field is a
  non-empty segment, its key the text before the first \<open>=\<close>, its value the text after.
\<close>

fun split_on :: "char \<Rightarrow> string \<Rightarrow> string list" where
  "split_on sep [] = [[]]"
| "split_on sep (c # cs) =
     (if c = sep then [] # split_on sep cs
      else (case split_on sep cs of
              seg # segs \<Rightarrow> (c # seg) # segs
            | [] \<Rightarrow> [[c]]))"

definition field_of :: "string \<Rightarrow> string \<times> string" where
  "field_of seg =
     (takeWhile (\<lambda>c. c \<noteq> CHR ''='') seg, drop 1 (dropWhile (\<lambda>c. c \<noteq> CHR ''='') seg))"

definition fields :: "string \<Rightarrow> (string \<times> string) list" where
  "fields s = map field_of (filter (\<lambda>seg. seg \<noteq> []) (split_on CHR '';'' s))"



subsection \<open>Well-formed instances, emitted events, sample inputs\<close>

text \<open>
  An instance whose constructor returned: the three handles are set, they name three
  different objects, and the library has handed all of them out already.
\<close>

definition constructed :: "state \<Rightarrow> bool" where
  "constructed st =
     (case (engine (self st), session (self st), conn (self st)) of
        (Some eng, Some s, Some c) \<Rightarrow>
          eng < fresh st \<and> s < fresh st \<and> c < fresh st \<and> distinct [eng, s, c]
      | _ \<Rightarrow> False)"

text \<open>What a call added to the trace: the events after those of the state it started in.\<close>

definition emitted :: "state \<Rightarrow> state \<Rightarrow> event list" where
  "emitted st st' = drop (length (trace st)) (trace st')"

text \<open>Sample environments and states, for evaluating the model on concrete inputs.\<close>

definition demo_env :: env where
  "demo_env =
     \<lparr>installed = [''ODBC Driver 13 for SQL Server'', ''ODBC Driver 17 for SQL Server''],
      environ = [''SQLUID'' \<mapsto> ''env_user'', ''SQLPWD'' \<mapsto> ''env_pwd''],
      raises = (\<lambda>_. None), table = (\<lambda>_. DataFrame [] [])\<rparr>"

definition failing_env :: env where
  "failing_env =
     demo_env\<lparr>raises :=
       (\<lambda>c. case c of
               Execute h q \<Rightarrow> Some (LibraryError ''syntax error'')
             | ReadSqlQuery h q \<Rightarrow> Some (LibraryError ''syntax error'')
             | _ \<Rightarrow> None)\<rparr>"

definition commit_failing_env :: env where
  "commit_failing_env =
     demo_env\<lparr>raises :=
       (\<lambda>c. case c of Commit h \<Rightarrow> Some (LibraryError ''deadlock'') | _ \<Rightarrow> None)\<rparr>"

definition no_driver_env :: env where
  "no_driver_env = demo_env\<lparr>installed := [''PostgreSQL Unicode'', ''MySQL ODBC 8.0 Driver'']\<rparr>"

definition start :: state where
  "start = \<lparr>self = no_attributes, trace = [], fresh = 0\<rparr>"

definition connected :: state where
  "connected =
     \<lparr>self = no_attributes\<lparr>engine := Some 0, session := Some 1, conn := Some 2\<rparr>,
      trace = [], fresh = 3\<rparr>"

section \<open>Properties\<close>

subsection \<open>Traces and substrings\<close>

lemma log_lines_append: "log_lines (xs @ ys) = log_lines xs @ log_lines ys"
  by (induction xs rule: log_lines.induct) simp_all

lemma str_in_iff: "str_in sub s \<longleftrightarrow> (\<exists>pre post. s = pre @ sub @ post)"
proof (induction s)
  case Nil
  show ?case by auto
next
  case (Cons c cs)
  show ?case
  proof
    assume "str_in sub (c # cs)"
    then consider "prefix sub (c # cs)" | "str_in sub cs" by auto
    then show "\<exists>pre post. c # cs = pre @ sub @ post"
    proof cases
      case 1
      then obtain post where "c # cs = sub @ post" by (auto simp: prefix_def)
      then have "c # cs = [] @ sub @ post" by simp
      then show ?thesis by blast
    next
      case 2
      with Cons.IH obtain pre post where "cs = pre @ sub @ post" by blast
      then have "c # cs = (c # pre) @ sub @ post" by simp
      then show ?thesis by blast
    qed
  next
    assume "\<exists>pre post. c # cs = pre @ sub @ post"
    then obtain pre post where eq: "c # cs = pre @ sub @ post" by blast
    show "str_in sub (c # cs)"
    proof (cases pre)
      case Nil
      with eq have "prefix sub (c # cs)" by (simp add: prefix_def)
      then show ?thesis by simp
    next
      case (Cons p ps)
      with eq have "cs = ps @ sub @ post" by simp
      with Cons.IH have "str_in sub cs" by blast
      then show ?thesis by simp
    qed
  qed
qed

lemma emitted_append [simp]: "trace st' = trace st @ xs \<Longrightarrow> emitted st st' = xs"
  by (simp add: emitted_def)

lemmas run_defs = run_query_def with_engine_begin_def query_body_def session_commit_def
  lib_call_def lib_new_def logger_def Let_def

lemmas disconnect_defs = disconnect_def close_and_dispose_def lib_call_def logger_def

subsection \<open>Driver discovery\<close>

text \<open>
  C4. When listing the installed drivers does not raise, \<open>find_driver\<close> for the family
  \<open>SQL Server\<close> keeps the installed names that pass \<open>'SQL Server' in name\<close>, which are
  exactly the installed names that contain \<open>SQL Server\<close> as a substring; it returns the
  last element of that filtered list when the list is not empty and \<open>None\<close> when it is
  empty. On the way it only lists the drivers.
\<close>

theorem find_driver_last_match:
  assumes "raises ev Drivers = None"
  shows "find_driver ev ''SQL Server'' st =
           (Inr (if filter (str_in ''SQL Server'') (installed ev) = [] then None
                 else Some (last (filter (str_in ''SQL Server'') (installed ev)))),
            st\<lparr>trace := trace st @ [Drivers]\<rparr>)
         \<and> set (filter (str_in ''SQL Server'') (installed ev)) =
             {d. d \<in> set (installed ev) \<and> (\<exists>pre post. d = pre @ ''SQL Server'' @ post)}"
  using assms by (auto simp: find_driver_def lib_call_def Let_def str_in_iff)

theorem find_driver_last_match_witness:
  "find_driver demo_env ''SQL Server'' start =
     (Inr (Some ''ODBC Driver 17 for SQL Server''), start\<lparr>trace := [Drivers]\<rparr>)"
  using find_driver_last_match [of demo_env start] by (simp add: demo_env_def start_def)

text \<open>
  C5. For every family other than the literal \<open>SQL Server\<close>, whatever drivers are
  installed and even if listing them would raise, \<open>find_driver\<close> returns \<open>None\<close> without
  raising, and all it does is write one error record to the log.
\<close>

theorem find_driver_invalid_family:
  assumes "db_system \<noteq> ''SQL Server''"
  shows "find_driver ev db_system st =
           (Inr None,
            st\<lparr>trace := trace st @
              [Log ERROR ''Invalid database system. Please provide a valid database system name.'']\<rparr>)
    \<and> log_lines (trace (snd (find_driver ev db_system st))) =
           log_lines (trace st) @
             [(ERROR, ''Invalid database system. Please provide a valid database system name.'')]"
  using assms by (simp add: find_driver_def logger_def log_lines_append)

theorem find_driver_invalid_family_witness:
  "find_driver demo_env ''MySQL'' start =
     (Inr None,
      start\<lparr>trace := trace start @
        [Log ERROR ''Invalid database system. Please provide a valid database system name.'']\<rparr>)
   \<and> log_lines (trace (snd (find_driver demo_env ''MySQL'' start))) =
       [(ERROR, ''Invalid database system. Please provide a valid database system name.'')]"
  using find_driver_invalid_family [of "''MySQL''" demo_env start] by (simp add: start_def)

subsection \<open>Construction\<close>

text \<open>What the \<open>try\<close> block of the constructor leaves alone on \<open>self\<close>.\<close>

lemma open_session_frame:
  "self (snd (open_session ev p st)) =
     (self st)\<lparr>engine := engine (self (snd (open_session ev p st))),
               session := session (self (snd (open_session ev p st))),
               conn := conn (self (snd (open_session ev p st)))\<rparr>"
  by (auto simp: open_session_def lib_new_def logger_def Let_def split: option.splits)

text \<open>A driver name that \<open>find_driver\<close> returns contains the family, so it is not empty.\<close>

lemma find_driver_truthy:
  assumes "fst (find_driver ev ''SQL Server'' st) = Inr (Some d)"
  shows "truthy (Some d)"
proof -
  from assms have "d \<in> set (filter (str_in ''SQL Server'') (installed ev))"
    by (auto simp: find_driver_def lib_call_def Let_def split: option.splits if_splits
        dest: last_in_set)
  then have "str_in ''SQL Server'' d" by simp
  then have "d \<noteq> []" by auto
  then show ?thesis by (simp add: truthy_def)
qed

text \<open>
  An instance whose constructor returned is \<open>constructed\<close>: the properties of the methods
  below are stated for such instances.
\<close>

lemma open_session_constructed:
  assumes "fst (open_session ev p st) = Inr ()"
  shows "constructed (snd (open_session ev p st))"
  using assms
  by (auto simp: open_session_def lib_new_def logger_def Let_def constructed_def
      split: option.splits)

lemma init_constructed:
  assumes "fst (init ev db srv prt usr pwd trusted st) = Inr ()"
  shows "constructed (snd (init ev db srv prt usr pwd trusted st))"
proof -
  obtain r st1 where fd: "find_driver ev ''SQL Server'' st = (r, st1)"
    by (cases "find_driver ev ''SQL Server'' st")
  from assms fd obtain d where r: "r = Inr d" and t: "truthy d"
    by (cases r) (auto simp: init_def Let_def split: if_splits)
  define p where "p = quote_plus (odbc_string (format_opt d) srv prt db
      (py_or usr (environ ev ''SQLUID'')) (py_or pwd (environ ev ''SQLPWD'')) trusted)"
  define st3 where "st3 = st1\<lparr>self := (self st1)
      \<lparr>driver := Some d, server := Some srv, port := Some prt, database := Some db,
       user := Some (py_or usr (environ ev ''SQLUID'')),
       password := Some (py_or pwd (environ ev ''SQLPWD'')),
       use_trusted_connection := Some trusted, params := Some p\<rparr>\<rparr>"
  have init_eq: "init ev db srv prt usr pwd trusted st =
      (case open_session ev p st3 of
         (Inr _, st4) \<Rightarrow> (Inr (), st4)
       | (Inl e, st4) \<Rightarrow> (Inl e, logger ERROR (''Connection error: '' @ exn_str e) st4))"
    using t by (simp add: init_def fd r Let_def p_def st3_def)
  from assms have ok: "fst (open_session ev p st3) = Inr ()"
    unfolding init_eq by (cases "open_session ev p st3") (auto split: sum.splits)
  then have "snd (init ev db srv prt usr pwd trusted st) = snd (open_session ev p st3)"
    unfolding init_eq by (cases "open_session ev p st3") (auto split: sum.splits)
  with open_session_constructed [OF ok] show ?thesis by simp
qed

text \<open>
  C6. When driver discovery returns \<open>None\<close>, the constructor of a new instance raises
  the "driver not found" exception right after logging it as an error: the only library
  call made is the listing of the drivers, no engine, session or connection is created,
  and the only attribute assigned is \<open>driver\<close> (to \<open>None\<close>), so \<open>engine\<close>, \<open>session\<close>
  and \<open>conn\<close> do not exist on the instance.
\<close>

theorem init_driver_not_found:
  assumes "fst (find_driver ev ''SQL Server'' st) = Inr None" and "self st = no_attributes"
  shows "fst (init ev db srv prt usr pwd trusted st) = Inl (Exception driver_not_found) \<and>
         emitted st (snd (init ev db srv prt usr pwd trusted st)) =
           [Drivers, Log ERROR driver_not_found] \<and>
         self (snd (init ev db srv prt usr pwd trusted st)) = no_attributes\<lparr>driver := Some None\<rparr> \<and>
         engine (self (snd (init ev db srv prt usr pwd trusted st))) = None \<and>
         session (self (snd (init ev db srv prt usr pwd trusted st))) = None \<and>
         conn (self (snd (init ev db srv prt usr pwd trusted st))) = None \<and>
         fresh (snd (init ev db srv prt usr pwd trusted st)) = fresh st"
proof -
  from assms(1) have fd: "find_driver ev ''SQL Server'' st = (Inr None, st\<lparr>trace := trace st @ [Drivers]\<rparr>)"
    by (auto simp: find_driver_def lib_call_def Let_def split: option.splits if_splits)
  show ?thesis
    using assms(2) by (simp add: init_def fd truthy_def logger_def emitted_def no_attributes_def)
qed

theorem init_driver_not_found_witness:
  "fst (find_driver no_driver_env ''SQL Server'' start) = Inr None \<and>
   fst (init no_driver_env ''Sales'' ''h'' 1433 None None False start) =
     Inl (Exception
       ''ODBC Driver for SQL Server not found. Please install the driver and try again.'') \<and>
   emitted start (snd (init no_driver_env ''Sales'' ''h'' 1433 None None False start)) =
     [Drivers,
      Log ERROR ''ODBC Driver for SQL Server not found. Please install the driver and try again.''] \<and>
   engine (self (snd (init no_driver_env ''Sales'' ''h'' 1433 None None False start))) = None \<and>
   session (self (snd (init no_driver_env ''Sales'' ''h'' 1433 None None False start))) = None \<and>
   conn (self (snd (init no_driver_env ''Sales'' ''h'' 1433 None None False start))) = None"
proof -
  have f: "fst (find_driver no_driver_env ''SQL Server'' start) = Inr None"
    by (simp add: find_driver_def lib_call_def no_driver_env_def demo_env_def)
  have s: "self start = no_attributes" by (simp add: start_def)
  show ?thesis
    using f init_driver_not_found [OF f s, of "''Sales''" "''h''" 1433 None None False]
    by (simp add: driver_not_found_def no_attributes_def)
qed

text \<open>
  C9. Once a driver is found, \<open>self.user\<close> is the \<open>user\<close> argument when that is a
  non-empty string, and otherwise (the argument is \<open>None\<close> or the empty string) whatever
  \<open>os.environ.get('SQLUID')\<close> gives; the same for \<open>self.password\<close> with \<open>SQLPWD\<close>. This
  holds whether or not the connection is then established.
\<close>

theorem init_credentials_fallback:
  assumes "fst (find_driver ev ''SQL Server'' st) = Inr (Some d)"
  shows "user (self (snd (init ev db srv prt usr pwd trusted st))) =
           Some (if usr = None \<or> usr = Some [] then environ ev ''SQLUID'' else usr) \<and>
         password (self (snd (init ev db srv prt usr pwd trusted st))) =
           Some (if pwd = None \<or> pwd = Some [] then environ ev ''SQLPWD'' else pwd)"
proof -
  from assms obtain st1 where fd: "find_driver ev ''SQL Server'' st = (Inr (Some d), st1)"
    by (cases "find_driver ev ''SQL Server'' st") simp
  have t: "truthy (Some d)" by (rule find_driver_truthy [OF assms])
  have or_user: "py_or usr (environ ev ''SQLUID'') =
      (if usr = None \<or> usr = Some [] then environ ev ''SQLUID'' else usr)"
    by (cases usr) (auto simp: py_or_def truthy_def)
  have or_pwd: "py_or pwd (environ ev ''SQLPWD'') =
      (if pwd = None \<or> pwd = Some [] then environ ev ''SQLPWD'' else pwd)"
    by (cases pwd) (auto simp: py_or_def truthy_def)
  define p where "p = quote_plus (odbc_string (format_opt (Some d)) srv prt db
      (py_or usr (environ ev ''SQLUID'')) (py_or pwd (environ ev ''SQLPWD'')) trusted)"
  define st3 where "st3 = st1\<lparr>self := (self st1)
      \<lparr>driver := Some (Some d), server := Some srv, port := Some prt, database := Some db,
       user := Some (py_or usr (environ ev ''SQLUID'')),
       password := Some (py_or pwd (environ ev ''SQLPWD'')),
       use_trusted_connection := Some trusted, params := Some p\<rparr>\<rparr>"
  have init_eq: "init ev db srv prt usr pwd trusted st =
      (case open_session ev p st3 of
         (Inr _, st4) \<Rightarrow> (Inr (), st4)
       | (Inl e, st4) \<Rightarrow> (Inl e, logger ERROR (''Connection error: '' @ exn_str e) st4))"
    using t by (simp add: init_def fd Let_def p_def st3_def)
  have same: "self (snd (init ev db srv prt usr pwd trusted st)) = self (snd (open_session ev p st3))"
    unfolding init_eq
    by (cases "open_session ev p st3") (auto simp: logger_def split: sum.splits)
  have "user (self (snd (open_session ev p st3))) = user (self st3)"
    and "password (self (snd (open_session ev p st3))) = password (self st3)"
    by (subst open_session_frame, simp)+
  with same show ?thesis
    by (simp add: st3_def or_user or_pwd)
qed

theorem init_credentials_fallback_witness:
  "fst (find_driver demo_env ''SQL Server'' start) = Inr (Some ''ODBC Driver 17 for SQL Server'') \<and>
   user (self (snd (init demo_env ''Sales'' ''h'' 1433 (Some []) (Some []) False start))) =
     Some (Some ''env_user'') \<and>
   password (self (snd (init demo_env ''Sales'' ''h'' 1433 (Some []) (Some []) False start))) =
     Some (Some ''env_pwd'')"
proof -
  have f: "fst (find_driver demo_env ''SQL Server'' start) =
      Inr (Some ''ODBC Driver 17 for SQL Server'')"
    by (simp add: find_driver_def lib_call_def demo_env_def)
  show ?thesis
    using f init_credentials_fallback [OF f, where db = "''Sales''" and srv = "''h''"
        and prt = 1433 and usr = "Some []" and pwd = "Some []" and trusted = False]
    by (simp add: demo_env_def)
qed

subsection \<open>The connection descriptor\<close>

text \<open>Splitting at a separator, and the fields of a text put together from segments.\<close>

lemma split_on_not_Nil [simp]: "split_on sep s \<noteq> []"
  by (induction s) (auto split: list.splits)




lemma fields_Nil [simp]: "fields [] = []"
  by (simp add: fields_def)
























subsection \<open>\<open>run_query\<close>\<close>

text \<open>
  The log records of one call: the attempt first; then the success record if the block
  under \<open>with\<close> ran to its end; then the error record if the call raises.
\<close>

lemma run_query_log_shape:
  "(case fst (run_query ev q commit st) of
      Inr r \<Rightarrow>
        log_lines (emitted st (snd (run_query ev q commit st))) =
          [(INFO, ''Executing query: '' @ q), (INFO, ''Query executed successfully!'')]
    | Inl e \<Rightarrow>
        log_lines (emitted st (snd (run_query ev q commit st))) =
          [(INFO, ''Executing query: '' @ q), (ERROR, ''Query execution error: '' @ exn_str e)]
        \<or> log_lines (emitted st (snd (run_query ev q commit st))) =
          [(INFO, ''Executing query: '' @ q), (INFO, ''Query executed successfully!''),
           (ERROR, ''Query execution error: '' @ exn_str e)])"
  by (auto simp: run_defs emitted_def split: option.splits sum.splits prod.splits)

text \<open>
  C1. On a constructed instance, \<open>run_query(q, commit=False)\<close> never calls \<open>commit()\<close>
  on the session stored at construction, whatever the library does. With \<open>commit=True\<close>
  it calls \<open>commit()\<close> on that session exactly when the statement was executed (the
  per-call transaction began and \<open>execute\<close> returned), in particular in every call that
  returns. The session is not the per-call connection, whose handle is new in each call.
\<close>

theorem run_query_session_commit:
  assumes "constructed st" and "engine (self st) = Some eng" and "session (self st) = Some s"
  shows "Commit s \<notin> set (emitted st (snd (run_query ev q False st))) \<and>
         (Commit s \<in> set (emitted st (snd (run_query ev q True st))) \<longleftrightarrow>
            raises ev (EngineBegin eng (fresh st)) = None \<and>
            raises ev (Execute (fresh st) q) = None) \<and>
         ((\<exists>r. fst (run_query ev q True st) = Inr r) \<longrightarrow>
            Commit s \<in> set (emitted st (snd (run_query ev q True st)))) \<and>
         s \<noteq> fresh st"
proof -
  from assms have new: "s < fresh st"
    by (auto simp: constructed_def split: option.splits)
  have a: "Commit s \<notin> set (emitted st (snd (run_query ev q False st)))"
    using assms(2,3) new
    by (auto simp: run_defs emitted_def split: option.splits sum.splits prod.splits)
  have b: "Commit s \<in> set (emitted st (snd (run_query ev q True st))) \<longleftrightarrow>
            raises ev (EngineBegin eng (fresh st)) = None \<and>
            raises ev (Execute (fresh st) q) = None"
    using assms(2,3) new
    by (auto simp: run_defs emitted_def split: option.splits sum.splits prod.splits)
  have c: "(\<exists>r. fst (run_query ev q True st) = Inr r) \<longrightarrow>
            Commit s \<in> set (emitted st (snd (run_query ev q True st)))"
    using assms(2,3) new
    by (auto simp: run_defs emitted_def split: option.splits sum.splits prod.splits)
  from a b c new show ?thesis by blast
qed

theorem run_query_session_commit_witness:
  "constructed connected \<and>
   Commit 1 \<notin> set (emitted connected (snd (run_query demo_env ''SELECT 1'' False connected))) \<and>
   Commit 1 \<in> set (emitted connected (snd (run_query demo_env ''SELECT 1'' True connected))) \<and>
   fst (run_query demo_env ''SELECT 1'' True connected) = Inr (CursorResult 3 ''SELECT 1'')"
proof -
  have c: "constructed connected"
    by (simp add: constructed_def connected_def no_attributes_def)
  have e: "engine (self connected) = Some 0" and s: "session (self connected) = Some 1"
    by (simp_all add: connected_def no_attributes_def)
  have r: "fst (run_query demo_env ''SELECT 1'' True connected) = Inr (CursorResult 3 ''SELECT 1'')"
    by (simp add: run_defs connected_def demo_env_def no_attributes_def)
  show ?thesis
    using c r run_query_session_commit [OF c e s, of demo_env "''SELECT 1''"]
    by (simp add: demo_env_def)
qed

text \<open>
  C2. On a constructed instance, a call of \<open>run_query\<close> that returns has, whatever the
  \<open>commit\<close> flag: begun a transaction on a connection that did not exist before the call,
  executed the statement on it, then committed that transaction and closed that
  connection (both without an error), all before the result is returned. The flag only
  adds the session's \<open>commit()\<close> in between.
\<close>

theorem run_query_returns_committed:
  assumes "constructed st" and "fst (run_query ev q commit st) = Inr r"
  shows "\<exists>eng s c. engine (self st) = Some eng \<and> session (self st) = Some s \<and>
           conn (self st) = Some c \<and> fresh st \<notin> {eng, s, c} \<and>
           r = CursorResult (fresh st) q \<and>
           emitted st (snd (run_query ev q commit st)) =
             [Log INFO (''Executing query: '' @ q), EngineBegin eng (fresh st),
              Execute (fresh st) q] @
             (if commit then [Commit s] else []) @
             [Log INFO ''Query executed successfully!'', Commit (fresh st), Close (fresh st)] \<and>
           raises ev (Execute (fresh st) q) = None \<and>
           raises ev (Commit (fresh st)) = None \<and> raises ev (Close (fresh st)) = None"
proof -
  obtain st' where run: "run_query ev q commit st = (Inr r, st')"
    using assms(2) by (cases "run_query ev q commit st") simp
  from assms(1) obtain eng s c where
    attrs: "engine (self st) = Some eng" "session (self st) = Some s" "conn (self st) = Some c"
    and new: "eng < fresh st" "s < fresh st" "c < fresh st"
    by (auto simp: constructed_def split: option.splits)
  from run attrs have
    "r = CursorResult (fresh st) q \<and>
     trace st' = trace st @
       [Log INFO (''Executing query: '' @ q), EngineBegin eng (fresh st), Execute (fresh st) q] @
       (if commit then [Commit s] else []) @
       [Log INFO ''Query executed successfully!'', Commit (fresh st), Close (fresh st)] \<and>
     raises ev (Execute (fresh st) q) = None \<and>
     raises ev (Commit (fresh st)) = None \<and> raises ev (Close (fresh st)) = None"
    by (auto simp: run_defs split: option.splits sum.splits prod.splits if_splits)
  with run attrs new show ?thesis by auto
qed

theorem run_query_returns_committed_witness:
  "constructed connected \<and>
   fst (run_query demo_env ''SELECT 1'' False connected) = Inr (CursorResult 3 ''SELECT 1'') \<and>
   emitted connected (snd (run_query demo_env ''SELECT 1'' False connected)) =
     [Log INFO ''Executing query: SELECT 1'', EngineBegin 0 3, Execute 3 ''SELECT 1'',
      Log INFO ''Query executed successfully!'', Commit 3, Close 3]"
proof -
  have c: "constructed connected"
    by (simp add: constructed_def connected_def no_attributes_def)
  have r: "fst (run_query demo_env ''SELECT 1'' False connected) = Inr (CursorResult 3 ''SELECT 1'')"
    by (simp add: run_defs connected_def demo_env_def no_attributes_def)
  show ?thesis
    using c r run_query_returns_committed [OF c r]
    by (simp add: connected_def no_attributes_def)
qed

text \<open>
  C7 (as amended). On an instance with its engine and session, every call of \<open>run_query\<close>
  writes the attempt record first. It writes the success record next exactly when the
  per-call transaction began, \<open>execute\<close> returned and, if requested, the session's
  \<open>commit()\<close> returned. It writes the error record last exactly when it raises. A call
  returns exactly when, in addition, the commit and the close of the per-call transaction
  on leaving the \<open>with\<close> block return. So a call that returns writes two records
  (attempt, success); a call that raises writes three (attempt, success, error) exactly
  when the failure is on leaving the per-call transaction scope, the exception being that
  of the commit or of the close, and two (attempt, error) otherwise.
\<close>

theorem run_query_log_lines:
  assumes "engine (self st) = Some eng" and "session (self st) = Some s"
  shows "log_lines (emitted st (snd (run_query ev q commit st))) =
           [(INFO, ''Executing query: '' @ q)] @
           (if raises ev (EngineBegin eng (fresh st)) = None \<and>
               raises ev (Execute (fresh st) q) = None \<and>
               (commit \<longrightarrow> raises ev (Commit s) = None)
            then [(INFO, ''Query executed successfully!'')] else []) @
           (case fst (run_query ev q commit st) of
              Inl e \<Rightarrow> [(ERROR, ''Query execution error: '' @ exn_str e)]
            | Inr r \<Rightarrow> [])
         \<and> ((\<exists>r. fst (run_query ev q commit st) = Inr r) \<longleftrightarrow>
              raises ev (EngineBegin eng (fresh st)) = None \<and>
              raises ev (Execute (fresh st) q) = None \<and>
              (commit \<longrightarrow> raises ev (Commit s) = None) \<and>
              raises ev (Commit (fresh st)) = None \<and> raises ev (Close (fresh st)) = None)
         \<and> (\<forall>e. fst (run_query ev q commit st) = Inl e \<and>
                raises ev (EngineBegin eng (fresh st)) = None \<and>
                raises ev (Execute (fresh st) q) = None \<and>
                (commit \<longrightarrow> raises ev (Commit s) = None) \<longrightarrow>
                raises ev (Commit (fresh st)) = Some e \<or>
                raises ev (Commit (fresh st)) = None \<and> raises ev (Close (fresh st)) = Some e)"
proof -
  have a: "log_lines (emitted st (snd (run_query ev q commit st))) =
           [(INFO, ''Executing query: '' @ q)] @
           (if raises ev (EngineBegin eng (fresh st)) = None \<and>
               raises ev (Execute (fresh st) q) = None \<and>
               (commit \<longrightarrow> raises ev (Commit s) = None)
            then [(INFO, ''Query executed successfully!'')] else []) @
           (case fst (run_query ev q commit st) of
              Inl e \<Rightarrow> [(ERROR, ''Query execution error: '' @ exn_str e)]
            | Inr r \<Rightarrow> [])"
    using assms
    by (auto simp: run_defs emitted_def split: option.splits sum.splits prod.splits)
  have b: "(\<exists>r. fst (run_query ev q commit st) = Inr r) \<longleftrightarrow>
              raises ev (EngineBegin eng (fresh st)) = None \<and>
              raises ev (Execute (fresh st) q) = None \<and>
              (commit \<longrightarrow> raises ev (Commit s) = None) \<and>
              raises ev (Commit (fresh st)) = None \<and> raises ev (Close (fresh st)) = None"
    using assms
    by (auto simp: run_defs split: option.splits sum.splits prod.splits)
  have c: "\<forall>e. fst (run_query ev q commit st) = Inl e \<and>
                raises ev (EngineBegin eng (fresh st)) = None \<and>
                raises ev (Execute (fresh st) q) = None \<and>
                (commit \<longrightarrow> raises ev (Commit s) = None) \<longrightarrow>
                raises ev (Commit (fresh st)) = Some e \<or>
                raises ev (Commit (fresh st)) = None \<and> raises ev (Close (fresh st)) = Some e"
    using assms
    by (auto simp: run_defs split: option.splits sum.splits prod.splits)
  from a b c show ?thesis by blast
qed

theorem run_query_log_lines_witness:
  "engine (self connected) = Some 0 \<and> session (self connected) = Some 1 \<and>
   fst (run_query failing_env ''SELEC 1'' False connected) = Inl (LibraryError ''syntax error'') \<and>
   log_lines (emitted connected (snd (run_query failing_env ''SELEC 1'' False connected))) =
     [(INFO, ''Executing query: SELEC 1''), (ERROR, ''Query execution error: syntax error'')] \<and>
   fst (run_query commit_failing_env ''SELECT 1'' False connected) = Inl (LibraryError ''deadlock'') \<and>
   log_lines (emitted connected (snd (run_query commit_failing_env ''SELECT 1'' False connected))) =
     [(INFO, ''Executing query: SELECT 1''), (INFO, ''Query executed successfully!''),
      (ERROR, ''Query execution error: deadlock'')] \<and>
   log_lines (emitted connected (snd (run_query demo_env ''SELECT 1'' True connected))) =
     [(INFO, ''Executing query: SELECT 1''), (INFO, ''Query executed successfully!'')]"
proof -
  have e: "engine (self connected) = Some 0" and s: "session (self connected) = Some 1"
    by (simp_all add: connected_def no_attributes_def)
  have r1: "fst (run_query failing_env ''SELEC 1'' False connected) =
      Inl (LibraryError ''syntax error'')"
    by (simp add: run_defs connected_def failing_env_def demo_env_def no_attributes_def)
  have r2: "fst (run_query commit_failing_env ''SELECT 1'' False connected) =
      Inl (LibraryError ''deadlock'')"
    by (simp add: run_defs connected_def commit_failing_env_def demo_env_def no_attributes_def)
  have r3: "fst (run_query demo_env ''SELECT 1'' True connected) = Inr (CursorResult 3 ''SELECT 1'')"
    by (simp add: run_defs connected_def demo_env_def no_attributes_def)
  have l1: "log_lines (emitted connected (snd (run_query failing_env ''SELEC 1'' False connected))) =
     [(INFO, ''Executing query: SELEC 1''), (ERROR, ''Query execution error: syntax error'')]"
    using run_query_log_lines [OF e s, THEN conjunct1, of failing_env "''SELEC 1''" False] r1
    by (simp add: failing_env_def)
  have l2: "log_lines (emitted connected (snd (run_query commit_failing_env ''SELECT 1'' False connected))) =
     [(INFO, ''Executing query: SELECT 1''), (INFO, ''Query executed successfully!''),
      (ERROR, ''Query execution error: deadlock'')]"
    using run_query_log_lines [OF e s, THEN conjunct1, of commit_failing_env "''SELECT 1''" False] r2
    by (simp add: commit_failing_env_def)
  have l3: "log_lines (emitted connected (snd (run_query demo_env ''SELECT 1'' True connected))) =
     [(INFO, ''Executing query: SELECT 1''), (INFO, ''Query executed successfully!'')]"
    using run_query_log_lines [OF e s, THEN conjunct1, of demo_env "''SELECT 1''" True] r3
    by (simp add: demo_env_def)
  from e s r1 r2 l1 l2 l3 show ?thesis by blast
qed

text \<open>
  C7 as stated fails: when \<open>execute\<close> raises, the call writes the attempt record and the
  error record and never the success record.
\<close>

theorem run_query_failing_two_lines:
  "fst (run_query failing_env ''SELEC 1'' False connected) = Inl (LibraryError ''syntax error'') \<and>
   log_lines (emitted connected (snd (run_query failing_env ''SELEC 1'' False connected))) =
     [(INFO, ''Executing query: SELEC 1''), (ERROR, ''Query execution error: syntax error'')]"
  by (simp add: run_defs emitted_def connected_def failing_env_def demo_env_def no_attributes_def)

subsection \<open>\<open>save_query_df\<close> and \<open>disconnect\<close>\<close>

text \<open>
  C8. When \<open>read_sql_query\<close> raises, \<open>save_query_df\<close> raises the same exception, and
  the read is all it did: it writes no log record. A call of \<open>run_query\<close> that raises
  has always written the error record, as its last record.
\<close>

theorem save_query_df_silent:
  assumes "engine (self st) = Some eng" and "raises ev (ReadSqlQuery eng q) = Some e"
  shows "fst (save_query_df ev q st) = Inl e \<and>
         log_lines (emitted st (snd (save_query_df ev q st))) = [] \<and>
         emitted st (snd (save_query_df ev q st)) = [ReadSqlQuery eng q] \<and>
         (\<forall>e'. fst (run_query ev q commit st) = Inl e' \<longrightarrow>
            log_lines (emitted st (snd (run_query ev q commit st))) \<noteq> [] \<and>
            last (log_lines (emitted st (snd (run_query ev q commit st)))) =
              (ERROR, ''Query execution error: '' @ exn_str e'))"
proof -
  have a: "fst (save_query_df ev q st) = Inl e \<and>
         log_lines (emitted st (snd (save_query_df ev q st))) = [] \<and>
         emitted st (snd (save_query_df ev q st)) = [ReadSqlQuery eng q]"
    using assms by (simp add: save_query_df_def lib_call_def emitted_def)
  have b: "\<forall>e'. fst (run_query ev q commit st) = Inl e' \<longrightarrow>
            log_lines (emitted st (snd (run_query ev q commit st))) \<noteq> [] \<and>
            last (log_lines (emitted st (snd (run_query ev q commit st)))) =
              (ERROR, ''Query execution error: '' @ exn_str e')"
  proof (intro allI impI)
    fix e' assume "fst (run_query ev q commit st) = Inl e'"
    with run_query_log_shape [where ev = ev and q = q and commit = commit and st = st]
    have "log_lines (emitted st (snd (run_query ev q commit st))) =
            [(INFO, ''Executing query: '' @ q), (ERROR, ''Query execution error: '' @ exn_str e')]
          \<or> log_lines (emitted st (snd (run_query ev q commit st))) =
            [(INFO, ''Executing query: '' @ q), (INFO, ''Query executed successfully!''),
             (ERROR, ''Query execution error: '' @ exn_str e')]"
      by simp
    then show "log_lines (emitted st (snd (run_query ev q commit st))) \<noteq> [] \<and>
            last (log_lines (emitted st (snd (run_query ev q commit st)))) =
              (ERROR, ''Query execution error: '' @ exn_str e')"
      by (elim disjE) simp_all
  qed
  from a b show ?thesis by blast
qed

theorem save_query_df_silent_witness:
  "fst (save_query_df failing_env ''SELEC 1'' connected) = Inl (LibraryError ''syntax error'') \<and>
   log_lines (emitted connected (snd (save_query_df failing_env ''SELEC 1'' connected))) = [] \<and>
   fst (run_query failing_env ''SELEC 1'' False connected) = Inl (LibraryError ''syntax error'') \<and>
   last (log_lines (emitted connected (snd (run_query failing_env ''SELEC 1'' False connected)))) =
     (ERROR, ''Query execution error: syntax error'')"
proof -
  have e: "engine (self connected) = Some 0"
    by (simp add: connected_def no_attributes_def)
  have f: "raises failing_env (ReadSqlQuery 0 ''SELEC 1'') = Some (LibraryError ''syntax error'')"
    by (simp add: failing_env_def)
  have r: "fst (run_query failing_env ''SELEC 1'' False connected) = Inl (LibraryError ''syntax error'')"
    by (simp add: run_defs connected_def failing_env_def demo_env_def no_attributes_def)
  show ?thesis
    using r save_query_df_silent [OF e f, of False] by (simp del: exn_str.simps) simp
qed

text \<open>
  C10. On a constructed instance \<open>disconnect\<close> assigns no attribute: \<open>self\<close> is the same
  afterwards, whatever the outcome. It never closes the session. It returns exactly when
  neither \<open>close()\<close> on the connection nor \<open>dispose()\<close> on the engine raises, and then
  it has made these two calls, in this order, and written one log record.
\<close>

theorem disconnect_frame:
  assumes "constructed st" and "engine (self st) = Some eng" and "session (self st) = Some s"
    and "conn (self st) = Some c"
  shows "self (snd (disconnect ev st)) = self st \<and>
         fresh (snd (disconnect ev st)) = fresh st \<and>
         Close s \<notin> set (emitted st (snd (disconnect ev st))) \<and>
         (fst (disconnect ev st) = Inr () \<longleftrightarrow>
            raises ev (Close c) = None \<and> raises ev (Dispose eng) = None) \<and>
         (fst (disconnect ev st) = Inr () \<longrightarrow>
            emitted st (snd (disconnect ev st)) =
              [Close c, Dispose eng, Log INFO ''DB Disconnected!'']) \<and>
         (\<forall>e. fst (disconnect ev st) = Inl e \<longrightarrow>
            emitted st (snd (disconnect ev st)) =
              [Close c] @ (if raises ev (Close c) = None then [Dispose eng] else []) @
              [Log ERROR (''Disconnection error: '' @ exn_str e)])"
proof -
  from assms have "s \<noteq> c"
    by (auto simp: constructed_def)
  with assms(2-4) show ?thesis
    by (auto simp: disconnect_defs emitted_def split: option.splits)
qed

theorem disconnect_frame_witness:
  "constructed connected \<and>
   fst (disconnect demo_env connected) = Inr () \<and>
   self (snd (disconnect demo_env connected)) = self connected \<and>
   emitted connected (snd (disconnect demo_env connected)) =
     [Close 2, Dispose 0, Log INFO ''DB Disconnected!''] \<and>
   Close 1 \<notin> set (emitted connected (snd (disconnect demo_env connected)))"
proof -
  have c: "constructed connected"
    by (simp add: constructed_def connected_def no_attributes_def)
  have a: "engine (self connected) = Some 0" "session (self connected) = Some 1"
    "conn (self connected) = Some 2"
    by (simp_all add: connected_def no_attributes_def)
  show ?thesis
    using c disconnect_frame [OF c a, of demo_env] by (simp add: demo_env_def)
qed

end
